theory Spec2Isabelle
  imports Main "HOL-Library.Word"
begin

section \<open>The login module \<open>web3auth.js\<close>: secret lifecycle and key derivation\<close>

text \<open>
  The module keeps two module-level variables, \<open>web3auth\<close> (the client handle, initially
  \<open>null\<close>) and \<open>secret\<close> (initially \<open>null\<close>), and exports \<open>init\<close>, \<open>recoverSecret\<close>,
  \<open>forgetSecret\<close> and the accessors \<open>getEntropy\<close>, \<open>getMnemonic\<close>, \<open>getSeed\<close>,
  \<open>getMasterKey\<close>, \<open>getPrivateKey\<close>, \<open>getPrivateKeyBytes\<close>, \<open>getPublicKeyBytes\<close>.
  Everything else is a call into a package the module imports: the social-login SDK
  (\<open>@web3auth\<close>), \<open>bip39\<close> and \<open>@scure/bip32\<close>. Those packages are parameters of the model;
  where a property is about what one of their functions does, that function is written
  out from the specification and marked as such.
\<close>

subsection \<open>JavaScript values and errors\<close>

text \<open>
  The primitive JavaScript values the module tests for truthiness (\<open>!secret\<close>) and
  interpolates into a template literal. The numbers of the model are the safe
  integers, the integers of magnitude below \<open>2^53\<close>: JavaScript holds each of them
  exactly and prints it as its plain decimal numeral. Larger numbers (printed in
  exponent form from \<open>10^21\<close> on), fractions, \<open>NaN\<close>, the infinities and the object
  values are not part of the model.
\<close>

typedef safe_integer = "{n :: int. - (2 ^ 53) < n \<and> n < 2 ^ 53}"
  morphisms number_value safe_number
  by (rule exI [of _ 0]) simp

datatype jsval = JNull | JUndefined | JBool bool | JNum safe_integer | JStr string

text \<open>JavaScript \<open>ToBoolean\<close>: \<open>null\<close>, \<open>undefined\<close>, \<open>false\<close>, \<open>0\<close> and \<open>""\<close> are falsy.\<close>

fun truthy :: "jsval \<Rightarrow> bool" where
  "truthy JNull = False"
| "truthy JUndefined = False"
| "truthy (JBool b) = b"
| "truthy (JNum n) = (number_value n \<noteq> 0)"
| "truthy (JStr s) = (s \<noteq> [])"

text \<open>
  What a call can throw: \<open>Error msg\<close> is the module's own \<open>throw new Error(msg)\<close>;
  \<open>Thrown x\<close> is an exception \<open>x\<close> raised inside an imported package, which the module
  never catches and so reaches the caller as it is.
\<close>

datatype 'x error = Error string | Thrown 'x

text \<open>
  The module has no error classes: its two precondition failures are plain \<open>Error\<close>s
  told apart by their messages. The names below are the ones the specification gives them.
\<close>

definition NotInitializedError :: "'x error" where
  "NotInitializedError = Error ''Web3auth was not initialized. Initialize web3auth first.''"

definition SecretNotRecoveredError :: "'x error" where
  "SecretNotRecoveredError = Error ''Something is wrong: the entropy was not recovered.''"

text \<open>An exception of an imported package passes through unchanged.\<close>

definition propagate :: "'x + 'a \<Rightarrow> 'x error + 'a" where
  "propagate r = (case r of Inl x \<Rightarrow> Inl (Thrown x) | Inr a \<Rightarrow> Inr a)"

subsection \<open>Module state\<close>

text \<open>\<open>let web3auth = null; let secret = null;\<close> (\<open>None\<close> is \<open>null\<close>).\<close>

record 'o state =
  web3auth :: "'o option"
  secret :: jsval

definition initial_state :: "'o state" where
  "initial_state = \<lparr>web3auth = None, secret = JNull\<rparr>"

subsection \<open>The imported packages\<close>

text \<open>
  The login SDK. Its calls act on a world \<open>'w\<close> outside the module (browser, network,
  the client object's own fields) and either throw (\<open>Inl\<close>) or return. \<open>'o\<close> is the type of
  the SDK's objects. \<open>request h m\<close> stands for \<open>web3auth.provider.request({method: m})\<close> on
  the client \<open>h\<close>, the \<open>TypeError\<close> of a \<open>null\<close> provider included among its exceptions.
  \<open>AB_testnet\<close> is the constant \<open>AB_WEB3AUTH_CONF.AB_testnet\<close> of
  \<open>utils/web3auth.constants.js\<close>. An \<open>await\<close> is modelled as the call running to its end.
\<close>

record ('w, 'x, 'o) sdk =
  AB_testnet :: 'o
  newCommonPrivateKeyProvider :: "'o \<Rightarrow> 'w \<Rightarrow> ('x + 'o) \<times> 'w"
  newOpenloginAdapter :: "'o \<Rightarrow> 'w \<Rightarrow> ('x + 'o) \<times> 'w"
  newWeb3Auth :: "string \<Rightarrow> 'o \<Rightarrow> string \<Rightarrow> string \<Rightarrow> 'w \<Rightarrow> ('x + 'o) \<times> 'w"
  configureAdapter :: "'o \<Rightarrow> 'o \<Rightarrow> 'w \<Rightarrow> ('x + unit) \<times> 'w"
  initModal :: "'o \<Rightarrow> 'w \<Rightarrow> ('x + unit) \<times> 'w"
  connect :: "'o \<Rightarrow> 'w \<Rightarrow> ('x + unit) \<times> 'w"
  request :: "'o \<Rightarrow> string \<Rightarrow> 'w \<Rightarrow> ('x + jsval) \<times> 'w"
  logout :: "'o \<Rightarrow> 'w \<Rightarrow> ('x + unit) \<times> 'w"

text \<open>
  The key-derivation packages: \<open>entropyToMnemonic\<close> and \<open>mnemonicToSeedSync\<close> of
  \<open>bip39\<close>, \<open>HDKey.fromMasterSeed\<close>, \<open>HDKey.derive\<close> and the fields \<open>privateKey\<close>,
  \<open>publicKey\<close> of \<open>@scure/bip32\<close>. They are functions of their arguments that return or
  throw.
\<close>

record ('x, 'm, 's, 'k, 'b) keylib =
  entropyToMnemonic :: "jsval \<Rightarrow> 'x + 'm"
  mnemonicToSeedSync :: "'m \<Rightarrow> 'x + 's"
  fromMasterSeed :: "'s \<Rightarrow> 'x + 'k"
  derive :: "'k \<Rightarrow> string \<Rightarrow> 'x + 'k"
  privateKey :: "'k \<Rightarrow> 'b"
  publicKey :: "'k \<Rightarrow> 'b"

subsection \<open>Session operations\<close>

text \<open>
  \<open>init(api_key, chainConfig = AB_WEB3AUTH_CONF.AB_testnet, network = "sapphire_devnet")\<close>.
  An omitted argument is \<open>None\<close>. The assignment to \<open>web3auth\<close> happens as soon as the
  client is constructed, before \<open>configureAdapter\<close> and \<open>initModal\<close>.
\<close>

definition init ::
  "('w, 'x, 'o) sdk \<Rightarrow> string \<Rightarrow> 'o option \<Rightarrow> string option \<Rightarrow> 'o state \<Rightarrow> 'w
    \<Rightarrow> ('x error + unit) \<times> 'o state \<times> 'w" where
  "init sdk api_key chainConfig_arg network_arg st w =
    (let chainConfig = (case chainConfig_arg of None \<Rightarrow> AB_testnet sdk | Some c \<Rightarrow> c);
         network = (case network_arg of None \<Rightarrow> ''sapphire_devnet'' | Some n \<Rightarrow> n);
         clientId = api_key
     in case newCommonPrivateKeyProvider sdk chainConfig w of
          (Inl x, w1) \<Rightarrow> (Inl (Thrown x), st, w1)
        | (Inr privateKeyProvider, w1) \<Rightarrow>
           (case newOpenloginAdapter sdk privateKeyProvider w1 of
              (Inl x, w2) \<Rightarrow> (Inl (Thrown x), st, w2)
            | (Inr openloginAdapter, w2) \<Rightarrow>
               (case newWeb3Auth sdk clientId chainConfig network ''WALLET'' w2 of
                  (Inl x, w3) \<Rightarrow> (Inl (Thrown x), st, w3)
                | (Inr h, w3) \<Rightarrow>
                   (let st1 = st\<lparr>web3auth := Some h\<rparr>
                    in case configureAdapter sdk h openloginAdapter w3 of
                         (Inl x, w4) \<Rightarrow> (Inl (Thrown x), st1, w4)
                       | (Inr _, w4) \<Rightarrow>
                          (case initModal sdk h w4 of
                             (Inl x, w5) \<Rightarrow> (Inl (Thrown x), st1, w5)
                           | (Inr _, w5) \<Rightarrow> (Inr (), st1, w5))))))"

text \<open>
  \<open>recoverSecret\<close>: the guard, \<open>await web3auth.connect()\<close>, then
  \<open>secret = await provider.request({method: 'private_key'})\<close> and \<open>return true\<close>.
  The assignment to \<open>secret\<close> is only reached when the request returned.
\<close>

definition recoverSecret ::
  "('w, 'x, 'o) sdk \<Rightarrow> 'o state \<Rightarrow> 'w \<Rightarrow> ('x error + bool) \<times> 'o state \<times> 'w" where
  "recoverSecret sdk st w =
    (case web3auth st of
       None \<Rightarrow> (Inl NotInitializedError, st, w)
     | Some h \<Rightarrow>
        (case connect sdk h w of
           (Inl x, w1) \<Rightarrow> (Inl (Thrown x), st, w1)
         | (Inr _, w1) \<Rightarrow>
            (case request sdk h ''private_key'' w1 of
               (Inl x, w2) \<Rightarrow> (Inl (Thrown x), st, w2)
             | (Inr v, w2) \<Rightarrow> (Inr True, st\<lparr>secret := v\<rparr>, w2))))"

text \<open>\<open>forgetSecret\<close>: the guard, \<open>await web3auth.logout()\<close>, then \<open>secret = null\<close>.\<close>

definition forgetSecret ::
  "('w, 'x, 'o) sdk \<Rightarrow> 'o state \<Rightarrow> 'w \<Rightarrow> ('x error + unit) \<times> 'o state \<times> 'w" where
  "forgetSecret sdk st w =
    (case web3auth st of
       None \<Rightarrow> (Inl NotInitializedError, st, w)
     | Some h \<Rightarrow>
        (case logout sdk h w of
           (Inl x, w1) \<Rightarrow> (Inl (Thrown x), st, w1)
         | (Inr _, w1) \<Rightarrow> (Inr (), st\<lparr>secret := JNull\<rparr>, w1)))"

subsection \<open>Accessors and the derivation chain\<close>

text \<open>The accessors read the module state and assign to none of its variables.\<close>

definition getEntropy :: "'o state \<Rightarrow> 'x error + jsval" where
  "getEntropy st =
    (if web3auth st = None then Inl NotInitializedError
     else if \<not> truthy (secret st) then Inl SecretNotRecoveredError
     else Inr (secret st))"

definition getMnemonic :: "('x, 'm, 's, 'k, 'b) keylib \<Rightarrow> 'o state \<Rightarrow> 'x error + 'm" where
  "getMnemonic lib st =
    (case getEntropy st of
       Inl e \<Rightarrow> Inl e
     | Inr entropy \<Rightarrow> propagate (entropyToMnemonic lib entropy))"

definition getSeed :: "('x, 'm, 's, 'k, 'b) keylib \<Rightarrow> 'o state \<Rightarrow> 'x error + 's" where
  "getSeed lib st =
    (case getMnemonic lib st of
       Inl e \<Rightarrow> Inl e
     | Inr mnemonic \<Rightarrow> propagate (mnemonicToSeedSync lib mnemonic))"

definition getMasterKey :: "('x, 'm, 's, 'k, 'b) keylib \<Rightarrow> 'o state \<Rightarrow> 'x error + 'k" where
  "getMasterKey lib st =
    (case getSeed lib st of
       Inl e \<Rightarrow> Inl e
     | Inr seed \<Rightarrow> propagate (fromMasterSeed lib seed))"

text \<open>Decimal digits of a natural number, most significant first.\<close>

fun digits :: "nat \<Rightarrow> string" where
  "digits n =
    (if n < 10 then [''0123456789'' ! n]
     else digits (n div 10) @ [''0123456789'' ! (n mod 10)])"

declare digits.simps [simp del]

text \<open>The decimal numeral of an integer, with a leading minus sign when negative.\<close>

definition decimal :: "int \<Rightarrow> string" where
  "decimal n = (if n < 0 then ''-'' @ digits (nat (- n)) else digits (nat n))"

text \<open>
  JavaScript \<open>ToString\<close>, as the template literal applies it. A safe integer is printed
  as its decimal numeral.
\<close>

fun toString :: "jsval \<Rightarrow> string" where
  "toString JNull = ''null''"
| "toString JUndefined = ''undefined''"
| "toString (JBool b) = (if b then ''true'' else ''false'')"
| "toString (JNum n) = decimal (number_value n)"
| "toString (JStr s) = s"

text \<open>
  \<open>getPrivateKey(accountIndex = 0)\<close>: an omitted argument and an explicit \<open>undefined\<close>
  both take the default. The master key is computed first, then the path is built by
  the template literal \<open>`m/44'/634'/${accountIndex}'/0/0`\<close> and handed to \<open>derive\<close>.
\<close>

definition getPrivateKey ::
  "('x, 'm, 's, 'k, 'b) keylib \<Rightarrow> 'o state \<Rightarrow> jsval \<Rightarrow> 'x error + 'k" where
  "getPrivateKey lib st accountIndex_arg =
    (let accountIndex = (if accountIndex_arg = JUndefined then JNum (safe_number 0) else accountIndex_arg)
     in case getMasterKey lib st of
          Inl e \<Rightarrow> Inl e
        | Inr masterKey \<Rightarrow>
           propagate (derive lib masterKey
             (''m/44'' @ [CHR 0x27] @ ''/634'' @ [CHR 0x27] @ ''/'' @ toString accountIndex
                @ [CHR 0x27] @ ''/0/0'')))"

definition getPrivateKeyBytes ::
  "('x, 'm, 's, 'k, 'b) keylib \<Rightarrow> 'o state \<Rightarrow> jsval \<Rightarrow> 'x error + 'b" where
  "getPrivateKeyBytes lib st accountIndex_arg =
    (let accountIndex = (if accountIndex_arg = JUndefined then JNum (safe_number 0) else accountIndex_arg)
     in case getPrivateKey lib st accountIndex of
          Inl e \<Rightarrow> Inl e
        | Inr priv_key \<Rightarrow> Inr (privateKey lib priv_key))"

definition getPublicKeyBytes ::
  "('x, 'm, 's, 'k, 'b) keylib \<Rightarrow> 'o state \<Rightarrow> jsval \<Rightarrow> 'x error + 'b" where
  "getPublicKeyBytes lib st accountIndex_arg =
    (let accountIndex = (if accountIndex_arg = JUndefined then JNum (safe_number 0) else accountIndex_arg)
     in case getPrivateKey lib st accountIndex of
          Inl e \<Rightarrow> Inl e
        | Inr priv_key \<Rightarrow> Inr (publicKey lib priv_key))"

subsection \<open>Runs of session operations\<close>

text \<open>
  The three operations that assign to the module's variables, as a caller issues them.
  \<open>perform\<close> runs one and reports whether it returned (\<open>True\<close>) or threw; \<open>run\<close> runs
  a list of them, an operation that threw not stopping the caller from issuing the next.
\<close>

datatype 'o call = Init string "'o option" "string option" | RecoverSecret | ForgetSecret

fun perform ::
  "('w, 'x, 'o) sdk \<Rightarrow> 'o call \<Rightarrow> 'o state \<Rightarrow> 'w \<Rightarrow> bool \<times> 'o state \<times> 'w" where
  "perform sdk (Init api_key chainConfig network) st w =
     (case init sdk api_key chainConfig network st w of (r, st', w') \<Rightarrow> (\<not> isl r, st', w'))"
| "perform sdk RecoverSecret st w =
     (case recoverSecret sdk st w of (r, st', w') \<Rightarrow> (\<not> isl r, st', w'))"
| "perform sdk ForgetSecret st w =
     (case forgetSecret sdk st w of (r, st', w') \<Rightarrow> (\<not> isl r, st', w'))"

fun run :: "('w, 'x, 'o) sdk \<Rightarrow> 'o call list \<Rightarrow> 'o state \<Rightarrow> 'w \<Rightarrow> 'o state \<times> 'w" where
  "run sdk [] st w = (st, w)"
| "run sdk (c # cs) st w = (case perform sdk c st w of (ok, st', w') \<Rightarrow> run sdk cs st' w')"

text \<open>No \<open>recoverSecret\<close> of the run returns.\<close>

fun no_recovery :: "('w, 'x, 'o) sdk \<Rightarrow> 'o call list \<Rightarrow> 'o state \<Rightarrow> 'w \<Rightarrow> bool" where
  "no_recovery sdk [] st w = True"
| "no_recovery sdk (c # cs) st w =
     (case perform sdk c st w of
        (ok, st', w') \<Rightarrow> \<not> (c = RecoverSecret \<and> ok) \<and> no_recovery sdk cs st' w')"

subsection \<open>Concrete collaborators\<close>

text \<open>
  A login SDK whose \<open>connect\<close>, \<open>request\<close> and \<open>logout\<close> have the given outcomes and
  whose world is the log of the calls made to it. Objects are numbers, exceptions are
  their messages.
\<close>

definition scripted_sdk ::
  "(string + unit) \<Rightarrow> (string + jsval) \<Rightarrow> (string + unit) \<Rightarrow> (string list, string, nat) sdk" where
  "scripted_sdk connect_outcome request_outcome logout_outcome =
    \<lparr>AB_testnet = 0,
     newCommonPrivateKeyProvider = (\<lambda>c w. (Inr 1, w @ [''new CommonPrivateKeyProvider''])),
     newOpenloginAdapter = (\<lambda>p w. (Inr 2, w @ [''new OpenloginAdapter''])),
     newWeb3Auth = (\<lambda>clientId c n m w. (Inr 3, w @ [''new Web3Auth''])),
     configureAdapter = (\<lambda>h a w. (Inr (), w @ [''configureAdapter''])),
     initModal = (\<lambda>h w. (Inr (), w @ [''initModal''])),
     connect = (\<lambda>h w. (connect_outcome, w @ [''connect''])),
     request = (\<lambda>h m w. (request_outcome, w @ [''request '' @ m])),
     logout = (\<lambda>h w. (logout_outcome, w @ [''logout'']))\<rparr>"

text \<open>
  A key library that builds keys as terms: a master key remembers its seed, a child key
  its parent and the path string it was derived along. It accepts every string as
  entropy and every path.
\<close>

datatype skey = Master string | Child skey string

definition symbolic_lib :: "(string, string, string, skey, string \<times> skey) keylib" where
  "symbolic_lib =
    \<lparr>entropyToMnemonic = (\<lambda>v. case v of JStr s \<Rightarrow> Inr (''mnemonic of '' @ s)
                                 | _ \<Rightarrow> Inl ''Invalid entropy''),
     mnemonicToSeedSync = (\<lambda>m. Inr (''seed of '' @ m)),
     fromMasterSeed = (\<lambda>s. Inr (Master s)),
     derive = (\<lambda>k p. Inr (Child k p)),
     privateKey = (\<lambda>k. (''private'', k)),
     publicKey = (\<lambda>k. (''public'', k))\<rparr>"

subsection \<open>The derivation path and chain, as the specification words them\<close>

text \<open>
  A path is \<open>m\<close> followed by index segments, a hardened one marked by an apostrophe.
  The specification's path for an account is \<open>m / 44' / 634' / accountIndex' / 0 / 0\<close>.
\<close>

datatype segment = Hardened int | NonHardened int

fun render_segment :: "segment \<Rightarrow> string" where
  "render_segment (Hardened n) = decimal n @ [CHR 0x27]"
| "render_segment (NonHardened n) = decimal n"

definition render_path :: "segment list \<Rightarrow> string" where
  "render_path segs = ''m'' @ concat (map (\<lambda>s. ''/'' @ render_segment s) segs)"

definition account_path :: "int \<Rightarrow> segment list" where
  "account_path accountIndex =
     [Hardened 44, Hardened 634, Hardened accountIndex, NonHardened 0, NonHardened 0]"

text \<open>
  The chain entropy \<open>\<rightarrow>\<close> mnemonic \<open>\<rightarrow>\<close> seed \<open>\<rightarrow>\<close> master key \<open>\<rightarrow>\<close> child key, each step
  computed from the result of the one before and from nothing else.
\<close>

definition derivation_chain ::
  "('x, 'm, 's, 'k, 'b) keylib \<Rightarrow> jsval \<Rightarrow> int \<Rightarrow> 'x + 'k" where
  "derivation_chain lib entropy accountIndex =
    (case entropyToMnemonic lib entropy of
       Inl x \<Rightarrow> Inl x
     | Inr mnemonic \<Rightarrow>
        (case mnemonicToSeedSync lib mnemonic of
           Inl x \<Rightarrow> Inl x
         | Inr seed \<Rightarrow>
            (case fromMasterSeed lib seed of
               Inl x \<Rightarrow> Inl x
             | Inr master \<Rightarrow> derive lib master (render_path (account_path accountIndex)))))"

subsection \<open>Reading a path\<close>

text \<open>
  The path notation read back, written apart from the printing above: the string is
  cut at every \<open>/\<close>, the first piece has to be \<open>m\<close>, and each further piece is an index in
  decimal digits, hardened when an apostrophe follows it. A leading minus sign is read
  as a negative index, so that what a path says is known for every string the module
  can build; whether such an index may be walked is the matter of \<open>derive\<close>.
\<close>

definition digit_value :: "char \<Rightarrow> nat option" where
  "digit_value c =
     map_of [(CHR ''0'', 0), (CHR ''1'', 1), (CHR ''2'', 2), (CHR ''3'', 3), (CHR ''4'', 4),
             (CHR ''5'', 5), (CHR ''6'', 6), (CHR ''7'', 7), (CHR ''8'', 8), (CHR ''9'', 9)] c"

fun parse_digits :: "nat \<Rightarrow> string \<Rightarrow> nat option" where
  "parse_digits acc [] = Some acc"
| "parse_digits acc (c # cs) =
     (case digit_value c of None \<Rightarrow> None | Some d \<Rightarrow> parse_digits (10 * acc + d) cs)"

definition parse_nat :: "string \<Rightarrow> nat option" where
  "parse_nat s = (if s = [] then None else parse_digits 0 s)"

definition parse_int :: "string \<Rightarrow> int option" where
  "parse_int s =
     (case s of
        [] \<Rightarrow> None
      | c # cs \<Rightarrow>
         if c = CHR ''-'' then map_option (\<lambda>n. - int n) (parse_nat cs)
         else map_option int (parse_nat s))"

definition parse_segment :: "string \<Rightarrow> segment option" where
  "parse_segment s =
     (if s \<noteq> [] \<and> last s = CHR 0x27 then map_option Hardened (parse_int (butlast s))
      else map_option NonHardened (parse_int s))"

fun split_on :: "char \<Rightarrow> string \<Rightarrow> string list" where
  "split_on c [] = [[]]"
| "split_on c (x # xs) =
     (if x = c then [] # split_on c xs
      else (x # hd (split_on c xs)) # tl (split_on c xs))"

definition parse_path :: "string \<Rightarrow> segment list option" where
  "parse_path s =
     (case split_on CHR ''/'' s of
        [] \<Rightarrow> None
      | h # pieces \<Rightarrow> if h = ''m'' then those (map parse_segment pieces) else None)"

subsection \<open>Walking a path\<close>

text \<open>
  \<open>HDKey.derive\<close> belongs to the package \<open>@scure/bip32\<close>; the module only calls it. The
  definitions of this subsection follow the specification's \<open>deriveChildKey\<close>.
\<close>

text \<open>What the key libraries throw: the index error the specification names, and any
  other failure with its message.\<close>

datatype library_error = InvalidAccountIndexError | LibraryFailure string

text \<open>Modelled from the spec: the index of a path segment must be a non-negative
  integer representable as a 31-bit value (index \<open>< 2^31\<close>); this is the check of
  \<open>HDKey.derive\<close>, which is not under src/.\<close>

fun index_in_range :: "segment \<Rightarrow> bool" where
  "index_in_range (Hardened n) = (0 \<le> n \<and> n < 2 ^ 31)"
| "index_in_range (NonHardened n) = (0 \<le> n \<and> n < 2 ^ 31)"

text \<open>Modelled from the spec: one step of the walk of \<open>HDKey.derive\<close>. A hardened segment
  uses the hardened-offset convention (\<open>2^31\<close> is added to the index); the child
  derivation itself (\<open>deriveChild\<close>, the curve arithmetic of the library) is a parameter.\<close>

fun walk_segment :: "('k \<Rightarrow> nat \<Rightarrow> 'k) \<Rightarrow> 'k \<Rightarrow> segment \<Rightarrow> 'k" where
  "walk_segment deriveChild k (Hardened n) = deriveChild k (nat n + 2 ^ 31)"
| "walk_segment deriveChild k (NonHardened n) = deriveChild k (nat n)"

text \<open>Modelled from the spec: \<open>deriveChildKey\<close>, as the \<open>HDKey.derive\<close> of \<open>@scure/bip32\<close>
  that \<open>getPrivateKey\<close> calls with a path string. The path is read, every index is
  checked before any child is derived, and an index out of range (or a piece that is
  not an index) fails with \<open>InvalidAccountIndexError\<close>; otherwise the path is walked
  from the given key, segment by segment.\<close>

definition derive_path ::
  "('k \<Rightarrow> nat \<Rightarrow> 'k) \<Rightarrow> 'k \<Rightarrow> string \<Rightarrow> library_error + 'k" where
  "derive_path deriveChild k path =
     (case parse_path path of
        None \<Rightarrow> Inl InvalidAccountIndexError
      | Some segs \<Rightarrow>
         if list_all index_in_range segs then Inr (foldl (walk_segment deriveChild) k segs)
         else Inl InvalidAccountIndexError)"

text \<open>A key library whose \<open>derive\<close> is the walk above; its keys are terms, a child key
  remembering its parent and its index in decimal.\<close>

definition walking_lib :: "(library_error, string, string, skey, string \<times> skey) keylib" where
  "walking_lib =
    \<lparr>entropyToMnemonic = (\<lambda>v. case v of JStr s \<Rightarrow> Inr (''mnemonic of '' @ s)
                                 | _ \<Rightarrow> Inl (LibraryFailure ''Invalid entropy'')),
     mnemonicToSeedSync = (\<lambda>m. Inr (''seed of '' @ m)),
     fromMasterSeed = (\<lambda>s. Inr (Master s)),
     derive = derive_path (\<lambda>k n. Child k (digits n)),
     privateKey = (\<lambda>k. (''private'', k)),
     publicKey = (\<lambda>k. (''public'', k))\<rparr>"

subsection \<open>The mnemonic encoding\<close>

text \<open>
  \<open>entropyToMnemonic\<close> and its inverse belong to the package \<open>bip39\<close>; the module only
  calls the former. The definitions of this subsection follow the specification, which
  names the standard mnemonic encoding: the entropy bits, followed by the first
  \<open>ENT / 32\<close> bits of the hash of the entropy as checksum, are cut into groups of 11
  bits, and each group is the index of a word in a list of 2048 words. The hash function
  and the word list are parameters.
\<close>

type_synonym byte = "8 word"

datatype mnemonic_error = InvalidEntropyLengthError | InvalidMnemonicError | InvalidChecksumError

text \<open>Modelled from the spec: a number as \<open>k\<close> binary digits, most significant first
  (the standard's 8-bit bytes and 11-bit word indices).\<close>

fun natToBinary :: "nat \<Rightarrow> nat \<Rightarrow> bool list" where
  "natToBinary 0 n = []"
| "natToBinary (Suc k) n = natToBinary k (n div 2) @ [odd n]"

text \<open>Modelled from the spec: the number that a run of binary digits, most significant
  first, denotes.\<close>

definition binaryToNat :: "bool list \<Rightarrow> nat" where
  "binaryToNat bs = foldl (\<lambda>a b. 2 * a + (if b then 1 else 0)) 0 bs"

text \<open>Modelled from the spec: the bits of a byte sequence, byte order kept.\<close>

definition bytesToBinary :: "byte list \<Rightarrow> bool list" where
  "bytesToBinary bytes = concat (map (\<lambda>b. natToBinary 8 (unat b)) bytes)"

text \<open>Modelled from the spec: a list cut into consecutive groups of \<open>n\<close> elements, the
  last group holding what is left.\<close>

fun chunks :: "nat \<Rightarrow> 'a list \<Rightarrow> 'a list list" where
  "chunks n xs = (if n = 0 \<or> xs = [] then [] else take n xs # chunks n (drop n xs))"

declare chunks.simps [simp del]

text \<open>Modelled from the spec: the position of a word in the word list, \<open>None\<close> for a
  word that is not in it.\<close>

fun indexOf :: "'a list \<Rightarrow> 'a \<Rightarrow> nat option" where
  "indexOf [] x = None"
| "indexOf (y # ys) x = (if y = x then Some 0 else map_option Suc (indexOf ys x))"

text \<open>Modelled from the spec: the checksum of the standard encoding, the first
  \<open>ENT / 32\<close> bits of the hash of the entropy (\<open>ENT\<close> the entropy length in bits).\<close>

definition deriveChecksumBits :: "(byte list \<Rightarrow> byte list) \<Rightarrow> byte list \<Rightarrow> bool list" where
  "deriveChecksumBits hash entropy =
     take (length entropy * 8 div 32) (bytesToBinary (hash entropy))"

text \<open>Modelled from the spec: \<open>deriveMnemonic(entropy) -> words\<close>, the \<open>entropyToMnemonic\<close>
  of \<open>bip39\<close> that \<open>getMnemonic\<close> calls. It maps entropy bytes to a checksum-bearing word
  sequence; the entropy length must be one of 128, 160, 192, 224, 256 bits, any other
  length fails with \<open>InvalidEntropyLengthError\<close>.\<close>

definition deriveMnemonic ::
  "(byte list \<Rightarrow> byte list) \<Rightarrow> string list \<Rightarrow> byte list \<Rightarrow> mnemonic_error + string list" where
  "deriveMnemonic hash wordlist entropy =
     (if length entropy * 8 \<notin> {128, 160, 192, 224, 256} then Inl InvalidEntropyLengthError
      else let bits = bytesToBinary entropy @ deriveChecksumBits hash entropy
           in Inr (map (\<lambda>c. wordlist ! binaryToNat c) (chunks 11 bits)))"

text \<open>Modelled from the spec: the inverse the specification's round-trip property refers
  to, the \<open>mnemonicToEntropy\<close> of \<open>bip39\<close>. It looks every word up, splits the bits into
  entropy and checksum, and returns the entropy bytes when the length is a supported
  one and the checksum is the one the entropy has.\<close>

definition mnemonicToEntropy ::
  "(byte list \<Rightarrow> byte list) \<Rightarrow> string list \<Rightarrow> string list \<Rightarrow> mnemonic_error + byte list" where
  "mnemonicToEntropy hash wordlist words =
     (if length words mod 3 \<noteq> 0 then Inl InvalidMnemonicError
      else case those (map (indexOf wordlist) words) of
        None \<Rightarrow> Inl InvalidMnemonicError
      | Some indices \<Rightarrow>
         (let bits = concat (map (natToBinary 11) indices);
              dividerIndex = (length bits div 33) * 32;
              entropyBits = take dividerIndex bits;
              checksumBits = drop dividerIndex bits;
              entropy = map (\<lambda>c. word_of_nat (binaryToNat c)) (chunks 8 entropyBits)
          in if length entropy * 8 \<notin> {128, 160, 192, 224, 256} then Inl InvalidEntropyLengthError
             else if deriveChecksumBits hash entropy \<noteq> checksumBits then Inl InvalidChecksumError
             else Inr entropy))"

text \<open>A word list of 2048 distinct words (\<open>a\<close>, \<open>aa\<close>, \<open>aaa\<close>, ...) and a 32-byte hash,
  to run the encoding on.\<close>

definition toy_wordlist :: "string list" where
  "toy_wordlist = map (\<lambda>k. replicate (Suc k) CHR ''a'') [0..<2048]"

definition toy_hash :: "byte list \<Rightarrow> byte list" where
  "toy_hash bytes = replicate 32 (foldr (+) bytes 0)"

section \<open>Precondition errors\<close>

lemma symbolic_lib_sel [simp]:
  "entropyToMnemonic symbolic_lib (JStr s) = Inr (''mnemonic of '' @ s)"
  "mnemonicToSeedSync symbolic_lib m = Inr (''seed of '' @ m)"
  "fromMasterSeed symbolic_lib sd = Inr (Master sd)"
  "derive symbolic_lib k p = Inr (Child k p)"
  "privateKey symbolic_lib k = (''private'', k)"
  "publicKey symbolic_lib k = (''public'', k)"
  by (simp_all add: symbolic_lib_def)

lemma getEntropy_uninit: "web3auth st = None \<Longrightarrow> getEntropy st = Inl NotInitializedError"
  by (simp add: getEntropy_def)

lemma getEntropy_no_secret:
  "web3auth st \<noteq> None \<Longrightarrow> \<not> truthy (secret st) \<Longrightarrow> getEntropy st = Inl SecretNotRecoveredError"
  by (auto simp: getEntropy_def)

lemma chain_fails_with_getEntropy:
  fixes lib :: "('x, 'm, 's, 'k, 'b) keylib"
  assumes "getEntropy st = (Inl e :: 'x error + jsval)"
  shows "getMnemonic lib st = Inl e" and "getSeed lib st = Inl e"
    and "getMasterKey lib st = Inl e" and "getPrivateKey lib st i = Inl e"
    and "getPrivateKeyBytes lib st i = Inl e" and "getPublicKeyBytes lib st i = Inl e"
  using assms
  by (simp_all add: getMnemonic_def getSeed_def getMasterKey_def getPrivateKey_def
      getPrivateKeyBytes_def getPublicKeyBytes_def Let_def)

lemma init_state:
  "init sdk k c n st w = (r, st', w') \<Longrightarrow>
     secret st' = secret st \<and> (web3auth st' = web3auth st \<or> web3auth st' \<noteq> None)
       \<and> (\<not> isl r \<longrightarrow> web3auth st' \<noteq> None)"
  by (auto simp: init_def Let_def split: prod.splits sum.splits option.splits)

lemma forgetSecret_returns:
  "forgetSecret sdk st w = (Inr u, st', w') \<Longrightarrow> web3auth st' \<noteq> None \<and> secret st' = JNull"
  by (auto simp: forgetSecret_def split: option.splits prod.splits sum.splits)

lemma forgetSecret_state:
  "forgetSecret sdk st w = (r, st', w') \<Longrightarrow> st' = st \<or> st' = st\<lparr>secret := JNull\<rparr>"
  by (auto simp: forgetSecret_def split: option.splits prod.splits sum.splits)

lemma recoverSecret_throws_state:
  "recoverSecret sdk st w = (r, st', w') \<Longrightarrow> isl r \<Longrightarrow> st' = st"
  by (auto simp: recoverSecret_def split: option.splits prod.splits sum.splits)

lemma recoverSecret_client:
  "recoverSecret sdk st w = (r, st', w') \<Longrightarrow> web3auth st' = web3auth st"
  by (auto simp: recoverSecret_def split: option.splits prod.splits sum.splits)

text \<open>No operation sets \<open>web3auth\<close> back to \<open>null\<close>.\<close>

lemma perform_keeps_client:
  assumes "perform sdk c st w = (ok, st', w')" and "web3auth st \<noteq> None"
  shows "web3auth st' \<noteq> None"
proof (cases c)
  case (Init k cc n)
  obtain r where "init sdk k cc n st w = (r, st', w')"
    using assms(1) Init by (auto split: prod.splits)
  from init_state [OF this] assms(2) show ?thesis by auto
next
  case RecoverSecret
  obtain r where "recoverSecret sdk st w = (r, st', w')"
    using assms(1) RecoverSecret by (auto split: prod.splits)
  from recoverSecret_client [OF this] assms(2) show ?thesis by simp
next
  case ForgetSecret
  obtain r where "forgetSecret sdk st w = (r, st', w')"
    using assms(1) ForgetSecret by (auto split: prod.splits)
  from forgetSecret_state [OF this] assms(2) show ?thesis by auto
qed

text \<open>Only a \<open>recoverSecret\<close> that returns takes \<open>secret\<close> away from \<open>null\<close>.\<close>

lemma perform_keeps_null_secret:
  assumes "perform sdk c st w = (ok, st', w')" and "\<not> (c = RecoverSecret \<and> ok)"
    and "secret st = JNull"
  shows "secret st' = JNull"
proof (cases c)
  case (Init k cc n)
  obtain r where "init sdk k cc n st w = (r, st', w')"
    using assms(1) Init by (auto split: prod.splits)
  from init_state [OF this] assms(3) show ?thesis by simp
next
  case RecoverSecret
  obtain r where r: "recoverSecret sdk st w = (r, st', w')" and "ok = (\<not> isl r)"
    using assms(1) RecoverSecret by (auto split: prod.splits)
  with assms(2) RecoverSecret have "isl r" by simp
  from recoverSecret_throws_state [OF r this] assms(3) show ?thesis by simp
next
  case ForgetSecret
  obtain r where "forgetSecret sdk st w = (r, st', w')"
    using assms(1) ForgetSecret by (auto split: prod.splits)
  from forgetSecret_state [OF this] assms(3) show ?thesis by auto
qed

lemma run_keeps_client:
  "run sdk cs st w = (st', w') \<Longrightarrow> web3auth st \<noteq> None \<Longrightarrow> web3auth st' \<noteq> None"
proof (induction cs arbitrary: st w)
  case Nil
  then show ?case by simp
next
  case (Cons c cs)
  obtain ok st1 w1 where p: "perform sdk c st w = (ok, st1, w1)"
    by (cases "perform sdk c st w") auto
  from Cons.prems(1) p have r: "run sdk cs st1 w1 = (st', w')" by simp
  from Cons.IH [OF r perform_keeps_client [OF p Cons.prems(2)]] show ?case .
qed

lemma run_keeps_null_secret:
  "no_recovery sdk cs st w \<Longrightarrow> run sdk cs st w = (st', w') \<Longrightarrow> secret st = JNull
     \<Longrightarrow> secret st' = JNull"
proof (induction cs arbitrary: st w)
  case Nil
  then show ?case by simp
next
  case (Cons c cs)
  obtain ok st1 w1 where p: "perform sdk c st w = (ok, st1, w1)"
    by (cases "perform sdk c st w") auto
  from Cons.prems(1) p have n: "\<not> (c = RecoverSecret \<and> ok)" and rest: "no_recovery sdk cs st1 w1"
    by simp_all
  from Cons.prems(2) p have r: "run sdk cs st1 w1 = (st', w')" by simp
  from Cons.IH [OF rest r perform_keeps_null_secret [OF p n Cons.prems(3)]] show ?case .
qed

text \<open>
  C2. Each of the seven accessors fails with the not-initialized error while \<open>web3auth\<close>
  is still \<open>null\<close>, and with the secret-not-recovered error once the client is set but
  \<open>secret\<close> holds no truthy value. In both states the result is the error, never a
  value. And \<open>secret\<close> is \<open>null\<close> in every state reached from the initial one by
  operations among which no \<open>recoverSecret\<close> returned, so that one of the two cases
  applies until then.
\<close>

theorem accessors_fail_before_recovery:
  fixes lib :: "('x, 'm, 's, 'k, 'b) keylib" and st :: "'o state"
    and sdk :: "('w, 'y, 'o) sdk"
  shows
   "(web3auth st = None \<longrightarrow>
       getEntropy st = (Inl NotInitializedError :: 'x error + jsval)
     \<and> getMnemonic lib st = Inl NotInitializedError
     \<and> getSeed lib st = Inl NotInitializedError
     \<and> getMasterKey lib st = Inl NotInitializedError
     \<and> getPrivateKey lib st i = Inl NotInitializedError
     \<and> getPrivateKeyBytes lib st i = Inl NotInitializedError
     \<and> getPublicKeyBytes lib st i = Inl NotInitializedError)
  \<and> (web3auth st \<noteq> None \<and> \<not> truthy (secret st) \<longrightarrow>
       getEntropy st = (Inl SecretNotRecoveredError :: 'x error + jsval)
     \<and> getMnemonic lib st = Inl SecretNotRecoveredError
     \<and> getSeed lib st = Inl SecretNotRecoveredError
     \<and> getMasterKey lib st = Inl SecretNotRecoveredError
     \<and> getPrivateKey lib st i = Inl SecretNotRecoveredError
     \<and> getPrivateKeyBytes lib st i = Inl SecretNotRecoveredError
     \<and> getPublicKeyBytes lib st i = Inl SecretNotRecoveredError)
  \<and> (no_recovery sdk cs initial_state w \<and> run sdk cs initial_state w = (st, w')
        \<longrightarrow> secret st = JNull)"
proof (intro conjI impI)
  assume "no_recovery sdk cs initial_state w \<and> run sdk cs initial_state w = (st, w')"
  then show "secret st = JNull"
    using run_keeps_null_secret [of sdk cs initial_state w st w']
    by (simp add: initial_state_def)
next
  assume u: "web3auth st = None"
  have e: "getEntropy st = (Inl NotInitializedError :: 'x error + jsval)"
    using u by (rule getEntropy_uninit)
  show "getEntropy st = (Inl NotInitializedError :: 'x error + jsval)" by (rule e)
  show "getMnemonic lib st = Inl NotInitializedError" by (rule chain_fails_with_getEntropy [OF e])
  show "getSeed lib st = Inl NotInitializedError" by (rule chain_fails_with_getEntropy [OF e])
  show "getMasterKey lib st = Inl NotInitializedError" by (rule chain_fails_with_getEntropy [OF e])
  show "getPrivateKey lib st i = Inl NotInitializedError" by (rule chain_fails_with_getEntropy [OF e])
  show "getPrivateKeyBytes lib st i = Inl NotInitializedError"
    by (rule chain_fails_with_getEntropy [OF e])
  show "getPublicKeyBytes lib st i = Inl NotInitializedError"
    by (rule chain_fails_with_getEntropy [OF e])
next
  assume a: "web3auth st \<noteq> None \<and> \<not> truthy (secret st)"
  have e: "getEntropy st = (Inl SecretNotRecoveredError :: 'x error + jsval)"
    using a getEntropy_no_secret [of st] by blast
  show "getEntropy st = (Inl SecretNotRecoveredError :: 'x error + jsval)" by (rule e)
  show "getMnemonic lib st = Inl SecretNotRecoveredError"
    by (rule chain_fails_with_getEntropy [OF e])
  show "getSeed lib st = Inl SecretNotRecoveredError" by (rule chain_fails_with_getEntropy [OF e])
  show "getMasterKey lib st = Inl SecretNotRecoveredError"
    by (rule chain_fails_with_getEntropy [OF e])
  show "getPrivateKey lib st i = Inl SecretNotRecoveredError"
    by (rule chain_fails_with_getEntropy [OF e])
  show "getPrivateKeyBytes lib st i = Inl SecretNotRecoveredError"
    by (rule chain_fails_with_getEntropy [OF e])
  show "getPublicKeyBytes lib st i = Inl SecretNotRecoveredError"
    by (rule chain_fails_with_getEntropy [OF e])
qed

theorem accessors_fail_before_recovery_witness:
  "web3auth (initial_state :: nat state) = None
   \<and> getEntropy (initial_state :: nat state) = (Inl NotInitializedError :: string error + jsval)
   \<and> getPublicKeyBytes symbolic_lib (initial_state :: nat state) (JNum (safe_number 0)) = Inl NotInitializedError
   \<and> no_recovery (scripted_sdk (Inr ()) (Inr (JStr ''00'')) (Inr ()))
        [Init ''key'' None None] initial_state []
   \<and> run (scripted_sdk (Inr ()) (Inr (JStr ''00'')) (Inr ()))
        [Init ''key'' None None] initial_state []
        = (\<lparr>web3auth = Some 3, secret = JNull\<rparr>,
           [''new CommonPrivateKeyProvider'', ''new OpenloginAdapter'', ''new Web3Auth'',
            ''configureAdapter'', ''initModal''])
   \<and> getEntropy \<lparr>web3auth = Some (3::nat), secret = JNull\<rparr>
        = (Inl SecretNotRecoveredError :: string error + jsval)
   \<and> getPublicKeyBytes symbolic_lib \<lparr>web3auth = Some (3::nat), secret = JNull\<rparr> (JNum (safe_number 0))
        = Inl SecretNotRecoveredError"
  using accessors_fail_before_recovery
      [where st = "initial_state :: nat state" and lib = symbolic_lib and i = "JNum (safe_number 0)"]
    accessors_fail_before_recovery
      [where st = "\<lparr>web3auth = Some (3::nat), secret = JNull\<rparr>" and lib = symbolic_lib
         and i = "JNum (safe_number 0)" and sdk = "scripted_sdk (Inr ()) (Inr (JStr ''00'')) (Inr ())"
         and cs = "[Init ''key'' None None]" and w = "[]"
         and w' = "[''new CommonPrivateKeyProvider'', ''new OpenloginAdapter'',
                    ''new Web3Auth'', ''configureAdapter'', ''initModal'']"]
  by (simp add: initial_state_def init_def scripted_sdk_def)

section \<open>Recovering the secret\<close>

text \<open>
  C6. From the uninitialized state \<open>recoverSecret\<close> throws the not-initialized error and
  makes no SDK call: the module state and the world outside are returned as they were,
  whatever the SDK is. With a client set, when \<open>connect\<close> and the \<open>private_key\<close> request
  both return, the requested value becomes \<open>secret\<close> and the result is \<open>true\<close>.
\<close>

theorem recoverSecret_contract:
  "(web3auth st = None \<longrightarrow> recoverSecret sdk st w = (Inl NotInitializedError, st, w))
   \<and> (web3auth st = Some h \<and> connect sdk h w = (Inr u, w1)
        \<and> request sdk h ''private_key'' w1 = (Inr v, w2)
      \<longrightarrow> recoverSecret sdk st w = (Inr True, st\<lparr>secret := v\<rparr>, w2))"
  by (simp add: recoverSecret_def)

theorem recoverSecret_contract_witness:
  "recoverSecret (scripted_sdk (Inr ()) (Inr (JStr ''00ff'')) (Inr ())) initial_state []
     = (Inl NotInitializedError, initial_state, [])
   \<and> recoverSecret (scripted_sdk (Inr ()) (Inr (JStr ''00ff'')) (Inr ()))
        \<lparr>web3auth = Some 3, secret = JNull\<rparr> []
     = (Inr True, \<lparr>web3auth = Some 3, secret = JStr ''00ff''\<rparr>,
        [''connect'', ''request private_key''])"
  using recoverSecret_contract
      [where st = initial_state
          and sdk = "scripted_sdk (Inr ()) (Inr (JStr ''00ff'')) (Inr ())" and w = "[]"]
    recoverSecret_contract
      [where st = "\<lparr>web3auth = Some 3, secret = JNull\<rparr>" and h = 3
          and sdk = "scripted_sdk (Inr ()) (Inr (JStr ''00ff'')) (Inr ())" and w = "[]"
          and u = "()" and ?w1.0 = "[''connect'']" and v = "JStr ''00ff''"
          and ?w2.0 = "[''connect'', ''request private_key'']"]
  by (simp add: initial_state_def scripted_sdk_def)

text \<open>
  C7. When \<open>connect\<close> throws, or \<open>connect\<close> returns and the request throws, the exception
  reaches the caller of \<open>recoverSecret\<close> unchanged and the module state is the state
  before the call. More generally, whenever \<open>recoverSecret\<close> throws, \<open>web3auth\<close> and
  \<open>secret\<close> are as before.
\<close>

theorem recoverSecret_failure_keeps_state:
  "(web3auth st = Some h \<and> connect sdk h w = (Inl x, w1)
      \<longrightarrow> recoverSecret sdk st w = (Inl (Thrown x), st, w1))
   \<and> (web3auth st = Some h \<and> connect sdk h w = (Inr u, w1)
        \<and> request sdk h ''private_key'' w1 = (Inl x, w2)
      \<longrightarrow> recoverSecret sdk st w = (Inl (Thrown x), st, w2))
   \<and> (\<forall>e st' w'. recoverSecret sdk st w = (Inl e, st', w') \<longrightarrow> st' = st)"
  by (auto simp: recoverSecret_def split: option.splits prod.splits sum.splits)

theorem recoverSecret_failure_keeps_state_witness:
  "recoverSecret (scripted_sdk (Inl ''popup closed'') (Inr (JStr ''00ff'')) (Inr ()))
        \<lparr>web3auth = Some 3, secret = JStr ''abcd''\<rparr> []
     = (Inl (Thrown ''popup closed''), \<lparr>web3auth = Some 3, secret = JStr ''abcd''\<rparr>, [''connect''])
   \<and> recoverSecret (scripted_sdk (Inr ()) (Inl ''method not found'') (Inr ()))
        \<lparr>web3auth = Some 3, secret = JStr ''abcd''\<rparr> []
     = (Inl (Thrown ''method not found''), \<lparr>web3auth = Some 3, secret = JStr ''abcd''\<rparr>,
        [''connect'', ''request private_key''])"
  using recoverSecret_failure_keeps_state
      [where st = "\<lparr>web3auth = Some 3, secret = JStr ''abcd''\<rparr>" and h = 3
          and sdk = "scripted_sdk (Inl ''popup closed'') (Inr (JStr ''00ff'')) (Inr ())"
          and w = "[]" and x = "''popup closed''" and ?w1.0 = "[''connect'']"]
    recoverSecret_failure_keeps_state
      [where st = "\<lparr>web3auth = Some 3, secret = JStr ''abcd''\<rparr>" and h = 3
          and sdk = "scripted_sdk (Inr ()) (Inl ''method not found'') (Inr ())" and w = "[]"
          and x = "''method not found''" and ?w1.0 = "[''connect'']" and u = "()"
          and ?w2.0 = "[''connect'', ''request private_key'']"]
  by (simp add: scripted_sdk_def)

text \<open>
  C10. When the request returns a falsy value (the empty string, \<open>0\<close>, \<open>false\<close>, \<open>null\<close>,
  \<open>undefined\<close>), \<open>recoverSecret\<close> stores it and returns \<open>true\<close>, and afterwards every
  accessor throws the secret-not-recovered error: \<open>!secret\<close> cannot tell the stored
  falsy value from no value.
\<close>

theorem falsy_secret_recovered_but_unreadable:
  fixes lib :: "('x, 'm, 's, 'k, 'b) keylib"
  assumes "web3auth st = Some h" and "connect sdk h w = (Inr u, w1)"
    and "request sdk h ''private_key'' w1 = (Inr v, w2)" and "\<not> truthy v"
  shows "recoverSecret sdk st w = (Inr True, st\<lparr>secret := v\<rparr>, w2)
   \<and> getEntropy (st\<lparr>secret := v\<rparr>) = (Inl SecretNotRecoveredError :: 'x error + jsval)
   \<and> getMnemonic lib (st\<lparr>secret := v\<rparr>) = Inl SecretNotRecoveredError
   \<and> getSeed lib (st\<lparr>secret := v\<rparr>) = Inl SecretNotRecoveredError
   \<and> getMasterKey lib (st\<lparr>secret := v\<rparr>) = Inl SecretNotRecoveredError
   \<and> getPrivateKey lib (st\<lparr>secret := v\<rparr>) i = Inl SecretNotRecoveredError
   \<and> getPrivateKeyBytes lib (st\<lparr>secret := v\<rparr>) i = Inl SecretNotRecoveredError
   \<and> getPublicKeyBytes lib (st\<lparr>secret := v\<rparr>) i = Inl SecretNotRecoveredError"
proof -
  have r: "recoverSecret sdk st w = (Inr True, st\<lparr>secret := v\<rparr>, w2)"
    using assms(1-3) by (simp add: recoverSecret_def)
  have e: "getEntropy (st\<lparr>secret := v\<rparr>) = (Inl SecretNotRecoveredError :: 'x error + jsval)"
    using assms(1,4) by (simp add: getEntropy_def)
  show ?thesis
    using r e chain_fails_with_getEntropy [OF e, of lib] by simp
qed

theorem falsy_secret_recovered_but_unreadable_witness:
  "recoverSecret (scripted_sdk (Inr ()) (Inr (JStr [])) (Inr ()))
        \<lparr>web3auth = Some 3, secret = JNull\<rparr> []
     = (Inr True, \<lparr>web3auth = Some 3, secret = JStr []\<rparr>, [''connect'', ''request private_key''])
   \<and> getEntropy \<lparr>web3auth = Some (3::nat), secret = JStr []\<rparr>
     = (Inl SecretNotRecoveredError :: string error + jsval)
   \<and> getPrivateKey symbolic_lib \<lparr>web3auth = Some (3::nat), secret = JStr []\<rparr> (JNum (safe_number 0))
     = Inl SecretNotRecoveredError"
  using falsy_secret_recovered_but_unreadable
      [where st = "\<lparr>web3auth = Some 3, secret = JNull\<rparr>" and h = 3
          and sdk = "scripted_sdk (Inr ()) (Inr (JStr [])) (Inr ())" and w = "[]" and u = "()"
          and ?w1.0 = "[''connect'']" and v = "JStr []"
          and ?w2.0 = "[''connect'', ''request private_key'']"
          and lib = symbolic_lib and i = "JNum (safe_number 0)"]
  by (simp add: scripted_sdk_def)

section \<open>Forgetting the secret\<close>

text \<open>
  C8. With a client set, when \<open>logout\<close> throws, \<open>forgetSecret\<close> throws the same exception
  and the assignment \<open>secret = null\<close> is not reached: the module state, \<open>secret\<close>
  included, is the state before the call.
\<close>

theorem forgetSecret_logout_failure_keeps_secret:
  assumes "web3auth st = Some h" and "logout sdk h w = (Inl x, w1)"
  shows "forgetSecret sdk st w = (Inl (Thrown x), st, w1)"
  using assms by (simp add: forgetSecret_def)

theorem forgetSecret_logout_failure_keeps_secret_witness:
  "forgetSecret (scripted_sdk (Inr ()) (Inr (JStr ''00ff'')) (Inl ''network down''))
        \<lparr>web3auth = Some 3, secret = JStr ''abcd''\<rparr> []
     = (Inl (Thrown ''network down''), \<lparr>web3auth = Some 3, secret = JStr ''abcd''\<rparr>, [''logout''])"
  using forgetSecret_logout_failure_keeps_secret
      [where st = "\<lparr>web3auth = Some 3, secret = JStr ''abcd''\<rparr>" and h = 3
          and sdk = "scripted_sdk (Inr ()) (Inr (JStr ''00ff'')) (Inl ''network down'')"
          and w = "[]" and x = "''network down''" and ?w1.0 = "[''logout'']"]
  by (simp add: scripted_sdk_def)

text \<open>
  C3. Once \<open>forgetSecret\<close> has returned, \<open>getEntropy\<close> and every accessor built on it
  throw the secret-not-recovered error, and they go on doing so after any further
  operations (\<open>init\<close>, \<open>forgetSecret\<close>, \<open>recoverSecret\<close> calls that throw) among which no
  \<open>recoverSecret\<close> returned. The empty run is the call made right after \<open>forgetSecret\<close>.
\<close>

theorem forgotten_secret_stays_unreadable:
  fixes lib :: "('x, 'm, 's, 'k, 'b) keylib"
  assumes "forgetSecret sdk st w = (Inr u, st1, w1)"
    and "no_recovery sdk cs st1 w1" and "run sdk cs st1 w1 = (st2, w2)"
  shows "getEntropy st2 = (Inl SecretNotRecoveredError :: 'x error + jsval)
   \<and> getMnemonic lib st2 = Inl SecretNotRecoveredError
   \<and> getSeed lib st2 = Inl SecretNotRecoveredError
   \<and> getMasterKey lib st2 = Inl SecretNotRecoveredError
   \<and> getPrivateKey lib st2 i = Inl SecretNotRecoveredError
   \<and> getPrivateKeyBytes lib st2 i = Inl SecretNotRecoveredError
   \<and> getPublicKeyBytes lib st2 i = Inl SecretNotRecoveredError"
proof -
  from forgetSecret_returns [OF assms(1)]
  have "web3auth st1 \<noteq> None" and "secret st1 = JNull" by simp_all
  then have "web3auth st2 \<noteq> None" and "\<not> truthy (secret st2)"
    using run_keeps_client [OF assms(3)] run_keeps_null_secret [OF assms(2,3)] by simp_all
  then have e: "getEntropy st2 = (Inl SecretNotRecoveredError :: 'x error + jsval)"
    by (rule getEntropy_no_secret)
  show ?thesis
    using e chain_fails_with_getEntropy [OF e, of lib] by simp
qed

theorem forgotten_secret_stays_unreadable_witness:
  "forgetSecret (scripted_sdk (Inl ''popup closed'') (Inr (JStr ''00ff'')) (Inr ()))
        \<lparr>web3auth = Some 3, secret = JStr ''abcd''\<rparr> []
     = (Inr (), \<lparr>web3auth = Some 3, secret = JNull\<rparr>, [''logout''])
   \<and> no_recovery (scripted_sdk (Inl ''popup closed'') (Inr (JStr ''00ff'')) (Inr ()))
        [RecoverSecret, ForgetSecret] \<lparr>web3auth = Some 3, secret = JNull\<rparr> [''logout'']
   \<and> run (scripted_sdk (Inl ''popup closed'') (Inr (JStr ''00ff'')) (Inr ()))
        [RecoverSecret, ForgetSecret] \<lparr>web3auth = Some 3, secret = JNull\<rparr> [''logout'']
     = (\<lparr>web3auth = Some 3, secret = JNull\<rparr>, [''logout'', ''connect'', ''logout''])
   \<and> getEntropy \<lparr>web3auth = Some (3::nat), secret = JNull\<rparr>
     = (Inl SecretNotRecoveredError :: string error + jsval)
   \<and> getPrivateKeyBytes symbolic_lib \<lparr>web3auth = Some (3::nat), secret = JNull\<rparr> (JNum (safe_number 0))
     = Inl SecretNotRecoveredError"
  using forgotten_secret_stays_unreadable
      [where sdk = "scripted_sdk (Inl ''popup closed'') (Inr (JStr ''00ff'')) (Inr ())"
         and st = "\<lparr>web3auth = Some 3, secret = JStr ''abcd''\<rparr>" and w = "[]" and u = "()"
         and ?st1.0 = "\<lparr>web3auth = Some 3, secret = JNull\<rparr>" and ?w1.0 = "[''logout'']"
         and cs = "[RecoverSecret, ForgetSecret]"
         and ?st2.0 = "\<lparr>web3auth = Some 3, secret = JNull\<rparr>"
         and ?w2.0 = "[''logout'', ''connect'', ''logout'']"
         and lib = symbolic_lib and i = "JNum (safe_number 0)"]
  by (simp add: scripted_sdk_def forgetSecret_def recoverSecret_def)

section \<open>The derivation path and chain\<close>

lemma number_value_safe_number [simp]:
  "- (2 ^ 53) < n \<Longrightarrow> n < 2 ^ 53 \<Longrightarrow> number_value (safe_number n) = n"
  by (simp add: safe_number_inverse)

lemma digit_value_of_digit: "d < 10 \<Longrightarrow> digit_value (''0123456789'' ! d) = Some d"
proof -
  assume "d < 10"
  then consider "d = 0" | "d = 1" | "d = 2" | "d = 3" | "d = 4" | "d = 5" | "d = 6" | "d = 7"
    | "d = 8" | "d = 9" by atomize_elim arith
  then show ?thesis by cases (simp_all add: digit_value_def)
qed

lemma digit_in_digits: "d < 10 \<Longrightarrow> ''0123456789'' ! d \<in> set ''0123456789''"
  by (rule nth_mem) simp

lemma set_digits: "set (digits n) \<subseteq> set ''0123456789''"
proof (induction n rule: digits.induct)
  case (1 n)
  show ?case
  proof (cases "n < 10")
    case True
    then show ?thesis using digit_in_digits [of n] by (subst digits.simps) simp
  next
    case False
    have "n mod 10 < 10" by simp
    then show ?thesis
      using 1 False digit_in_digits [of "n mod 10"] by (subst digits.simps) simp
  qed
qed

lemma digits_not_Nil: "digits n \<noteq> []"
  by (subst digits.simps) simp

lemma parse_digits_snoc:
  "parse_digits acc (cs @ [c]) =
     (case parse_digits acc cs of
        None \<Rightarrow> None
      | Some v \<Rightarrow> map_option (\<lambda>d. 10 * v + d) (digit_value c))"
  by (induction cs arbitrary: acc) (auto split: option.splits)

lemma parse_digits_digits: "parse_digits 0 (digits n) = Some n"
proof (induction n rule: digits.induct)
  case (1 n)
  show ?case
  proof (cases "n < 10")
    case True
    then show ?thesis by (subst digits.simps) (simp add: digit_value_of_digit)
  next
    case False
    have "parse_digits 0 (digits (n div 10) @ [''0123456789'' ! (n mod 10)])
            = Some (10 * (n div 10) + n mod 10)"
      using 1 False by (simp add: parse_digits_snoc digit_value_of_digit del: nth_Cons_numeral)
    then show ?thesis using False by (subst digits.simps) simp
  qed
qed

lemma parse_nat_digits: "parse_nat (digits n) = Some n"
  by (simp add: parse_nat_def digits_not_Nil parse_digits_digits)

lemma hd_digits: "hd (digits n) \<in> set ''0123456789''"
  using set_digits [of n] digits_not_Nil [of n] by (meson hd_in_set subsetD)

lemma last_digits: "last (digits n) \<in> set ''0123456789''"
  using set_digits [of n] digits_not_Nil [of n] by (meson last_in_set subsetD)

lemma parse_int_decimal: "parse_int (decimal i) = Some i"
proof (cases "i < 0")
  case True
  then show ?thesis by (simp add: decimal_def parse_int_def parse_nat_digits)
next
  case False
  obtain c cs where d: "digits (nat i) = c # cs"
    using digits_not_Nil [of "nat i"] by (cases "digits (nat i)") auto
  with hd_digits [of "nat i"] have "c \<noteq> CHR ''-''" by auto
  with False d parse_nat_digits [of "nat i"] show ?thesis
    by (simp add: decimal_def parse_int_def)
qed

lemma set_decimal: "set (decimal i) \<subseteq> insert CHR ''-'' (set ''0123456789'')"
proof (cases "i < 0")
  case True
  then have "set (decimal i) = insert CHR ''-'' (set (digits (nat (- i))))"
    by (simp add: decimal_def)
  with set_digits [of "nat (- i)"] show ?thesis by blast
next
  case False
  then have "set (decimal i) = set (digits (nat i))"
    by (simp add: decimal_def)
  with set_digits [of "nat i"] show ?thesis by blast
qed

lemma decimal_not_Nil: "decimal i \<noteq> []"
  by (simp add: decimal_def digits_not_Nil)

lemma apostrophe_not_digit: "CHR 0x27 \<notin> set ''0123456789''"
  by simp

lemma last_decimal: "last (decimal i) \<noteq> CHR 0x27"
proof (cases "i < 0")
  case True
  then have "last (decimal i) = last (digits (nat (- i)))"
    by (simp add: decimal_def digits_not_Nil)
  with last_digits [of "nat (- i)"] apostrophe_not_digit show ?thesis by metis
next
  case False
  then have "last (decimal i) = last (digits (nat i))"
    by (simp add: decimal_def)
  with last_digits [of "nat i"] apostrophe_not_digit show ?thesis by metis
qed

lemma parse_segment_render: "parse_segment (render_segment seg) = Some seg"
  by (cases seg) (simp_all add: parse_segment_def parse_int_decimal decimal_not_Nil last_decimal)

lemma slash_not_in_decimal: "CHR ''/'' \<notin> set (decimal i)"
proof
  assume "CHR ''/'' \<in> set (decimal i)"
  with set_decimal [of i] have "CHR ''/'' \<in> insert CHR ''-'' (set ''0123456789'')" by blast
  then show False by simp
qed

lemma slash_not_in_segment: "CHR ''/'' \<notin> set (render_segment seg)"
  by (cases seg) (simp_all add: slash_not_in_decimal)

lemma split_on_plain: "c \<notin> set w \<Longrightarrow> split_on c w = [w]"
  by (induction w) auto

lemma split_on_append: "c \<notin> set w \<Longrightarrow> split_on c (w @ c # rest) = w # split_on c rest"
  by (induction w) auto

lemma split_on_rendered:
  "CHR ''/'' \<notin> set w \<Longrightarrow>
   split_on CHR ''/'' (w @ concat (map (\<lambda>s. ''/'' @ render_segment s) segs))
     = w # map render_segment segs"
proof (induction segs arbitrary: w)
  case Nil
  then show ?case by (simp add: split_on_plain)
next
  case (Cons seg segs)
  have "split_on CHR ''/'' (w @ CHR ''/'' # (render_segment seg
           @ concat (map (\<lambda>s. ''/'' @ render_segment s) segs)))
        = w # split_on CHR ''/'' (render_segment seg
           @ concat (map (\<lambda>s. ''/'' @ render_segment s) segs))"
    using Cons.prems by (rule split_on_append)
  also have "\<dots> = w # render_segment seg # map render_segment segs"
    using Cons.IH [OF slash_not_in_segment] by simp
  finally show ?case by simp
qed

lemma those_parse_rendered: "those (map (parse_segment \<circ> render_segment) segs) = Some segs"
  by (induction segs) (simp_all add: parse_segment_render)

lemma parse_path_render_path: "parse_path (render_path segs) = Some segs"
proof -
  have "split_on CHR ''/'' (render_path segs) = ''m'' # map render_segment segs"
    unfolding render_path_def by (rule split_on_rendered) simp
  then show ?thesis by (simp add: parse_path_def those_parse_rendered)
qed

lemma getPrivateKey_default:
  "getPrivateKey lib st JUndefined = getPrivateKey lib st (JNum (safe_number 0))"
  by (simp add: getPrivateKey_def)

lemma decimal_of_path_constants: "decimal 0 = ''0''" "decimal 44 = ''44''" "decimal 634 = ''634''"
  by (simp_all add: decimal_def digits.simps)

lemma template_is_account_path:
  "''m/44'' @ [CHR 0x27] @ ''/634'' @ [CHR 0x27] @ ''/'' @ toString (JNum i) @ [CHR 0x27] @ ''/0/0''
     = render_path (account_path (number_value i))"
  by (simp add: render_path_def account_path_def decimal_of_path_constants)

lemma getPrivateKey_path:
  assumes "getMasterKey lib st = Inr masterKey"
  shows "getPrivateKey lib st (JNum i)
           = propagate (derive lib masterKey (render_path (account_path (number_value i))))"
proof -
  have "getPrivateKey lib st (JNum i)
          = propagate (derive lib masterKey
              (''m/44'' @ [CHR 0x27] @ ''/634'' @ [CHR 0x27] @ ''/'' @ toString (JNum i)
                 @ [CHR 0x27] @ ''/0/0''))"
    using assms by (simp add: getPrivateKey_def del: toString.simps)
  then show ?thesis by (simp only: template_is_account_path)
qed

lemma getMasterKey_chain:
  "web3auth st \<noteq> None \<Longrightarrow> truthy (secret st) \<Longrightarrow>
   getMasterKey lib st =
     (case entropyToMnemonic lib (secret st) of
        Inl x \<Rightarrow> Inl (Thrown x)
      | Inr mnemonic \<Rightarrow>
         (case mnemonicToSeedSync lib mnemonic of
            Inl x \<Rightarrow> Inl (Thrown x)
          | Inr seed \<Rightarrow> propagate (fromMasterSeed lib seed)))"
  by (auto simp: getMasterKey_def getSeed_def getMnemonic_def getEntropy_def propagate_def
      split: sum.splits)

lemma account_path_injective:
  assumes "render_path (account_path a) = render_path (account_path b)"
  shows "a = b"
proof -
  have "parse_path (render_path (account_path a)) = parse_path (render_path (account_path b))"
    by (rule arg_cong [OF assms])
  then have "account_path a = account_path b"
    by (simp only: parse_path_render_path option.inject)
  then show ?thesis by (simp add: account_path_def)
qed

text \<open>
  C1. With the master key derived, \<open>getPrivateKey(i)\<close> is the result of \<open>derive\<close> on the
  master key along the path \<open>m/44'/634'/i'/0/0\<close>. The string the code builds is pinned by
  reading it back: it reads as coin type 634 after purpose 44, both hardened, then the
  account index \<open>i\<close> itself, hardened, then two non-hardened zeros; so two account indices
  never share a path. Omitting the argument is the same as passing \<open>0\<close>.
\<close>

theorem getPrivateKey_derives_account_path:
  "(getMasterKey lib st = Inr masterKey \<longrightarrow>
      getPrivateKey lib st (JNum i)
        = propagate (derive lib masterKey
            (render_path [Hardened 44, Hardened 634, Hardened (number_value i),
                          NonHardened 0, NonHardened 0])))
   \<and> parse_path (render_path [Hardened 44, Hardened 634, Hardened (number_value i),
                               NonHardened 0, NonHardened 0])
        = Some [Hardened 44, Hardened 634, Hardened (number_value i),
                NonHardened 0, NonHardened 0]
   \<and> (\<forall>j. render_path [Hardened 44, Hardened 634, Hardened (number_value j),
                        NonHardened 0, NonHardened 0]
            = render_path [Hardened 44, Hardened 634, Hardened (number_value i),
                           NonHardened 0, NonHardened 0]
          \<longrightarrow> j = i)
   \<and> getPrivateKey lib st JUndefined = getPrivateKey lib st (JNum (safe_number 0))"
proof (intro conjI impI allI)
  assume "getMasterKey lib st = Inr masterKey"
  from getPrivateKey_path [OF this, of i]
  show "getPrivateKey lib st (JNum i)
        = propagate (derive lib masterKey
            (render_path [Hardened 44, Hardened 634, Hardened (number_value i),
                          NonHardened 0, NonHardened 0]))"
    by (simp add: account_path_def)
next
  show "parse_path (render_path [Hardened 44, Hardened 634, Hardened (number_value i),
                                 NonHardened 0, NonHardened 0])
        = Some [Hardened 44, Hardened 634, Hardened (number_value i),
                NonHardened 0, NonHardened 0]"
    by (rule parse_path_render_path)
next
  fix j
  assume "render_path [Hardened 44, Hardened 634, Hardened (number_value j),
                       NonHardened 0, NonHardened 0]
            = render_path [Hardened 44, Hardened 634, Hardened (number_value i),
                           NonHardened 0, NonHardened 0]"
  then have "number_value j = number_value i"
    using account_path_injective [of "number_value j" "number_value i"]
    by (simp add: account_path_def)
  then show "j = i" by (simp add: number_value_inject)
next
  show "getPrivateKey lib st JUndefined = getPrivateKey lib st (JNum (safe_number 0))"
    by (rule getPrivateKey_default)
qed

theorem getPrivateKey_derives_account_path_witness:
  "getMasterKey symbolic_lib \<lparr>web3auth = Some (3::nat), secret = JStr ''00ff''\<rparr>
     = Inr (Master ''seed of mnemonic of 00ff'')
   \<and> getPrivateKey symbolic_lib \<lparr>web3auth = Some (3::nat), secret = JStr ''00ff''\<rparr>
        (JNum (safe_number 12))
     = Inr (Child (Master ''seed of mnemonic of 00ff'') ''m/44'/634'/12'/0/0'')
   \<and> parse_path ''m/44'/634'/12'/0/0''
     = Some [Hardened 44, Hardened 634, Hardened 12, NonHardened 0, NonHardened 0]
   \<and> getPrivateKey symbolic_lib \<lparr>web3auth = Some (3::nat), secret = JStr ''00ff''\<rparr> JUndefined
     = Inr (Child (Master ''seed of mnemonic of 00ff'') ''m/44'/634'/0'/0/0'')"
proof -
  let ?st = "\<lparr>web3auth = Some (3::nat), secret = JStr ''00ff''\<rparr>"
  let ?mk = "Master ''seed of mnemonic of 00ff''"
  have m: "getMasterKey symbolic_lib ?st = Inr ?mk"
    by (simp add: getMasterKey_def getSeed_def getMnemonic_def getEntropy_def propagate_def)
  have p12: "render_path [Hardened 44, Hardened 634, Hardened 12, NonHardened 0, NonHardened 0]
               = ''m/44'/634'/12'/0/0''"
    by (simp add: render_path_def decimal_def digits.simps)
  have p0: "render_path [Hardened 44, Hardened 634, Hardened 0, NonHardened 0, NonHardened 0]
               = ''m/44'/634'/0'/0/0''"
    by (simp add: render_path_def decimal_def digits.simps)
  note t12 = getPrivateKey_derives_account_path
      [where lib = symbolic_lib and st = ?st and masterKey = ?mk and i = "safe_number 12"]
  note t0 = getPrivateKey_derives_account_path
      [where lib = symbolic_lib and st = ?st and masterKey = ?mk and i = "safe_number 0"]
  show ?thesis
    using m t12 t0 by (simp add: p12 p0 propagate_def)
qed

text \<open>
  C4. With a client set and a truthy secret stored, \<open>getPrivateKeyBytes(i)\<close> and
  \<open>getPublicKeyBytes(i)\<close> are the \<open>privateKey\<close> and \<open>publicKey\<close> fields of the child key
  that the whole chain yields from the secret stored at the time of the call. The
  module has no variable besides \<open>web3auth\<close> and \<open>secret\<close> and the accessors assign to
  neither, so the result is this function of the current secret and nothing kept from
  an earlier call.
\<close>

theorem key_bytes_recomputed_from_stored_entropy:
  assumes "web3auth st \<noteq> None" and "truthy (secret st)"
  shows "getPrivateKeyBytes lib st (JNum i)
           = (case derivation_chain lib (secret st) (number_value i) of
                Inl x \<Rightarrow> Inl (Thrown x) | Inr child \<Rightarrow> Inr (privateKey lib child))
       \<and> getPublicKeyBytes lib st (JNum i)
           = (case derivation_chain lib (secret st) (number_value i) of
                Inl x \<Rightarrow> Inl (Thrown x) | Inr child \<Rightarrow> Inr (publicKey lib child))"
proof -
  have k: "getPrivateKey lib st (JNum i)
             = propagate (derivation_chain lib (secret st) (number_value i))"
  proof (cases "getMasterKey lib st")
    case (Inl e)
    then show ?thesis
      using getMasterKey_chain [OF assms, of lib]
      by (auto simp: getPrivateKey_def derivation_chain_def propagate_def split: sum.splits)
  next
    case (Inr masterKey)
    then show ?thesis
      using getMasterKey_chain [OF assms, of lib] getPrivateKey_path [OF Inr, of i]
      by (auto simp: derivation_chain_def propagate_def split: sum.splits)
  qed
  show ?thesis
    by (simp add: getPrivateKeyBytes_def getPublicKeyBytes_def k propagate_def
        split: sum.splits)
qed

theorem key_bytes_recomputed_from_stored_entropy_witness:
  "web3auth \<lparr>web3auth = Some (3::nat), secret = JStr ''00ff''\<rparr> \<noteq> None
   \<and> truthy (secret \<lparr>web3auth = Some (3::nat), secret = JStr ''00ff''\<rparr>)
   \<and> getPrivateKeyBytes symbolic_lib \<lparr>web3auth = Some (3::nat), secret = JStr ''00ff''\<rparr>
        (JNum (safe_number 7))
     = Inr (''private'', Child (Master ''seed of mnemonic of 00ff'') ''m/44'/634'/7'/0/0'')
   \<and> getPublicKeyBytes symbolic_lib \<lparr>web3auth = Some (3::nat), secret = JStr ''00ff''\<rparr>
        (JNum (safe_number 7))
     = Inr (''public'', Child (Master ''seed of mnemonic of 00ff'') ''m/44'/634'/7'/0/0'')"
  using key_bytes_recomputed_from_stored_entropy
      [where lib = symbolic_lib and st = "\<lparr>web3auth = Some (3::nat), secret = JStr ''00ff''\<rparr>"
         and i = "safe_number 7"]
  by (simp add: derivation_chain_def render_path_def account_path_def decimal_def digits.simps)

section \<open>The account index\<close>

lemma account_path_in_range:
  "list_all index_in_range (account_path i) = (0 \<le> i \<and> i < 2 ^ 31)"
  by (simp add: account_path_def)

lemma derive_path_account_path:
  "derive_path deriveChild k (render_path (account_path i)) =
     (if 0 \<le> i \<and> i < 2 ^ 31
      then Inr (deriveChild (deriveChild (deriveChild (deriveChild (deriveChild k
                  (44 + 2 ^ 31)) (634 + 2 ^ 31)) (nat i + 2 ^ 31)) 0) 0)
      else Inl InvalidAccountIndexError)"
proof -
  have "foldl (walk_segment deriveChild) k (account_path i)
          = deriveChild (deriveChild (deriveChild (deriveChild (deriveChild k
                  (44 + 2 ^ 31)) (634 + 2 ^ 31)) (nat i + 2 ^ 31)) 0) 0"
    by (simp add: account_path_def)
  then show ?thesis
    by (simp only: derive_path_def parse_path_render_path option.case account_path_in_range)
qed

text \<open>
  C5. With \<open>derive\<close> as the specification describes it and the master key derived, the
  call for an account index that is negative or not below \<open>2^31\<close> fails with
  \<open>InvalidAccountIndexError\<close>, in \<open>getPrivateKey\<close> and in both byte extractors; the call
  for an index from \<open>0\<close> up to \<open>2^31 - 1\<close>, index \<open>0\<close> in particular, returns the child key
  walked along \<open>44'\<close>, \<open>634'\<close>, the index hardened, \<open>0\<close>, \<open>0\<close>; and an omitted index is \<open>0\<close>.
  The check is the one \<open>derive\<close> makes on the path it is handed, before it derives any
  child.
\<close>

theorem out_of_range_account_index_rejected:
  fixes lib :: "(library_error, 'm, 's, 'k, 'b) keylib"
  assumes "derive lib = derive_path deriveChild" and "getMasterKey lib st = Inr masterKey"
  shows
   "(number_value i < 0 \<or> 2 ^ 31 \<le> number_value i \<longrightarrow>
        getPrivateKey lib st (JNum i) = Inl (Thrown InvalidAccountIndexError)
      \<and> getPrivateKeyBytes lib st (JNum i) = Inl (Thrown InvalidAccountIndexError)
      \<and> getPublicKeyBytes lib st (JNum i) = Inl (Thrown InvalidAccountIndexError))
  \<and> (0 \<le> number_value i \<and> number_value i < 2 ^ 31 \<longrightarrow>
        getPrivateKey lib st (JNum i)
          = Inr (deriveChild (deriveChild (deriveChild (deriveChild (deriveChild masterKey
                  (44 + 2 ^ 31)) (634 + 2 ^ 31)) (nat (number_value i) + 2 ^ 31)) 0) 0)
      \<and> getPrivateKeyBytes lib st (JNum i)
          = Inr (privateKey lib
              (deriveChild (deriveChild (deriveChild (deriveChild (deriveChild masterKey
                  (44 + 2 ^ 31)) (634 + 2 ^ 31)) (nat (number_value i) + 2 ^ 31)) 0) 0))
      \<and> getPublicKeyBytes lib st (JNum i)
          = Inr (publicKey lib
              (deriveChild (deriveChild (deriveChild (deriveChild (deriveChild masterKey
                  (44 + 2 ^ 31)) (634 + 2 ^ 31)) (nat (number_value i) + 2 ^ 31)) 0) 0)))
  \<and> getPrivateKey lib st (JNum (safe_number 0))
       = Inr (deriveChild (deriveChild (deriveChild (deriveChild (deriveChild masterKey
               (44 + 2 ^ 31)) (634 + 2 ^ 31)) (2 ^ 31)) 0) 0)
  \<and> getPrivateKey lib st JUndefined = getPrivateKey lib st (JNum (safe_number 0))
  \<and> getPrivateKeyBytes lib st JUndefined = getPrivateKeyBytes lib st (JNum (safe_number 0))
  \<and> getPublicKeyBytes lib st JUndefined = getPublicKeyBytes lib st (JNum (safe_number 0))"
proof -
  have k: "getPrivateKey lib st (JNum j)
             = propagate (derive_path deriveChild masterKey
                 (render_path (account_path (number_value j))))" for j
    using getPrivateKey_path [OF assms(2), of j] assms(1) by simp
  have bad: "getPrivateKey lib st (JNum i) = Inl (Thrown InvalidAccountIndexError)"
    if "number_value i < 0 \<or> 2 ^ 31 \<le> number_value i"
    using that by (auto simp: k derive_path_account_path propagate_def)
  have good: "getPrivateKey lib st (JNum j)
      = Inr (deriveChild (deriveChild (deriveChild (deriveChild (deriveChild masterKey
              (44 + 2 ^ 31)) (634 + 2 ^ 31)) (nat (number_value j) + 2 ^ 31)) 0) 0)"
    if "0 \<le> number_value j \<and> number_value j < 2 ^ 31" for j
    using that by (simp add: k derive_path_account_path propagate_def)
  have zero: "getPrivateKey lib st (JNum (safe_number 0))
      = Inr (deriveChild (deriveChild (deriveChild (deriveChild (deriveChild masterKey
              (44 + 2 ^ 31)) (634 + 2 ^ 31)) (2 ^ 31)) 0) 0)"
    using good [of "safe_number 0"] by simp
  show ?thesis
  proof (intro conjI impI)
    assume a: "number_value i < 0 \<or> 2 ^ 31 \<le> number_value i"
    show "getPrivateKey lib st (JNum i) = Inl (Thrown InvalidAccountIndexError)"
      by (rule bad [OF a])
    show "getPrivateKeyBytes lib st (JNum i) = Inl (Thrown InvalidAccountIndexError)"
      by (simp add: getPrivateKeyBytes_def bad [OF a])
    show "getPublicKeyBytes lib st (JNum i) = Inl (Thrown InvalidAccountIndexError)"
      by (simp add: getPublicKeyBytes_def bad [OF a])
  next
    assume a: "0 \<le> number_value i \<and> number_value i < 2 ^ 31"
    show "getPrivateKey lib st (JNum i)
      = Inr (deriveChild (deriveChild (deriveChild (deriveChild (deriveChild masterKey
              (44 + 2 ^ 31)) (634 + 2 ^ 31)) (nat (number_value i) + 2 ^ 31)) 0) 0)"
      by (rule good [OF a])
    show "getPrivateKeyBytes lib st (JNum i)
      = Inr (privateKey lib
          (deriveChild (deriveChild (deriveChild (deriveChild (deriveChild masterKey
              (44 + 2 ^ 31)) (634 + 2 ^ 31)) (nat (number_value i) + 2 ^ 31)) 0) 0))"
      by (simp add: getPrivateKeyBytes_def good [OF a])
    show "getPublicKeyBytes lib st (JNum i)
      = Inr (publicKey lib
          (deriveChild (deriveChild (deriveChild (deriveChild (deriveChild masterKey
              (44 + 2 ^ 31)) (634 + 2 ^ 31)) (nat (number_value i) + 2 ^ 31)) 0) 0))"
      by (simp add: getPublicKeyBytes_def good [OF a])
  next
    show "getPrivateKey lib st (JNum (safe_number 0))
      = Inr (deriveChild (deriveChild (deriveChild (deriveChild (deriveChild masterKey
              (44 + 2 ^ 31)) (634 + 2 ^ 31)) (2 ^ 31)) 0) 0)"
      by (rule zero)
    show "getPrivateKey lib st JUndefined = getPrivateKey lib st (JNum (safe_number 0))"
      by (rule getPrivateKey_default)
    show "getPrivateKeyBytes lib st JUndefined = getPrivateKeyBytes lib st (JNum (safe_number 0))"
      by (simp add: getPrivateKeyBytes_def)
    show "getPublicKeyBytes lib st JUndefined = getPublicKeyBytes lib st (JNum (safe_number 0))"
      by (simp add: getPublicKeyBytes_def)
  qed
qed

theorem out_of_range_account_index_rejected_witness:
  "derive walking_lib = derive_path (\<lambda>k n. Child k (digits n))
   \<and> getMasterKey walking_lib \<lparr>web3auth = Some (3::nat), secret = JStr ''00ff''\<rparr>
     = Inr (Master ''seed of mnemonic of 00ff'')
   \<and> getPrivateKey walking_lib \<lparr>web3auth = Some (3::nat), secret = JStr ''00ff''\<rparr>
        (JNum (safe_number 2147483648))
     = Inl (Thrown InvalidAccountIndexError)
   \<and> getPublicKeyBytes walking_lib \<lparr>web3auth = Some (3::nat), secret = JStr ''00ff''\<rparr>
        (JNum (safe_number (- 1)))
     = Inl (Thrown InvalidAccountIndexError)
   \<and> getPrivateKey walking_lib \<lparr>web3auth = Some (3::nat), secret = JStr ''00ff''\<rparr>
        (JNum (safe_number 2147483647))
     = Inr (Child (Child (Child (Child (Child (Master ''seed of mnemonic of 00ff'')
              ''2147483692'') ''2147484282'') ''4294967295'') ''0'') ''0'')
   \<and> getPrivateKey walking_lib \<lparr>web3auth = Some (3::nat), secret = JStr ''00ff''\<rparr> JUndefined
     = Inr (Child (Child (Child (Child (Child (Master ''seed of mnemonic of 00ff'')
              ''2147483692'') ''2147484282'') ''2147483648'') ''0'') ''0'')"
proof -
  let ?st = "\<lparr>web3auth = Some (3::nat), secret = JStr ''00ff''\<rparr>"
  let ?mk = "Master ''seed of mnemonic of 00ff''"
  have d: "derive walking_lib = derive_path (\<lambda>k n. Child k (digits n))"
    by (simp add: walking_lib_def)
  have m: "getMasterKey walking_lib ?st = Inr ?mk"
    by (simp add: getMasterKey_def getSeed_def getMnemonic_def getEntropy_def propagate_def
        walking_lib_def)
  note t = out_of_range_account_index_rejected [OF d m]
  have big: "getPrivateKey walking_lib ?st (JNum (safe_number 2147483648))
               = Inl (Thrown InvalidAccountIndexError)"
    using t [of "safe_number 2147483648"] by simp
  have neg: "getPublicKeyBytes walking_lib ?st (JNum (safe_number (- 1)))
               = Inl (Thrown InvalidAccountIndexError)"
    using t [of "safe_number (- 1)"] by simp
  have top: "getPrivateKey walking_lib ?st (JNum (safe_number 2147483647))
      = Inr (Child (Child (Child (Child (Child ?mk
              ''2147483692'') ''2147484282'') ''4294967295'') ''0'') ''0'')"
    using t [of "safe_number 2147483647"] by (simp add: digits.simps)
  have dflt: "getPrivateKey walking_lib ?st JUndefined
      = Inr (Child (Child (Child (Child (Child ?mk
              ''2147483692'') ''2147484282'') ''2147483648'') ''0'') ''0'')"
    using t [of "safe_number 0"] by (simp add: digits.simps)
  show ?thesis using d m big neg top dflt by simp
qed

section \<open>The mnemonic round trip\<close>

lemma length_natToBinary [simp]: "length (natToBinary k n) = k"
  by (induction k arbitrary: n) auto

lemma binaryToNat_snoc: "binaryToNat (bs @ [b]) = 2 * binaryToNat bs + (if b then 1 else 0)"
  by (simp add: binaryToNat_def)

lemma binaryToNat_Nil [simp]: "binaryToNat [] = 0"
  by (simp add: binaryToNat_def)

lemma binaryToNat_natToBinary: "binaryToNat (natToBinary k n) = n mod 2 ^ k"
proof (induction k arbitrary: n)
  case 0
  then show ?case by simp
next
  case (Suc k)
  have "binaryToNat (natToBinary (Suc k) n) = 2 * (n div 2 mod 2 ^ k) + (if odd n then 1 else 0)"
    by (simp add: binaryToNat_snoc Suc.IH)
  also have "\<dots> = n mod 2 ^ Suc k"
    by (simp add: mod_mult2_eq odd_iff_mod_2_eq_one)
  finally show ?case .
qed

lemma natToBinary_binaryToNat: "natToBinary (length bs) (binaryToNat bs) = bs"
proof (induction bs rule: rev_induct)
  case Nil
  then show ?case by simp
next
  case (snoc b bs)
  then show ?case by (simp add: binaryToNat_snoc)
qed

lemma binaryToNat_less: "binaryToNat bs < 2 ^ length bs"
proof -
  have "binaryToNat (natToBinary (length bs) (binaryToNat bs)) = binaryToNat bs mod 2 ^ length bs"
    by (rule binaryToNat_natToBinary)
  then have "binaryToNat bs = binaryToNat bs mod 2 ^ length bs"
    by (simp add: natToBinary_binaryToNat)
  moreover have "binaryToNat bs mod 2 ^ length bs < 2 ^ length bs" by simp
  ultimately show ?thesis by simp
qed

lemma byte_of_bits: "word_of_nat (binaryToNat (natToBinary 8 (unat (b :: byte)))) = b"
proof -
  have "unat b < 2 ^ 8" using unsigned_less [of b] by simp
  then show ?thesis by (simp add: binaryToNat_natToBinary)
qed

lemma chunks_concat:
  "0 < k \<Longrightarrow> \<forall>x \<in> set xss. length x = k \<Longrightarrow> chunks k (concat xss) = xss"
proof (induction xss)
  case Nil
  then show ?case by (simp add: chunks.simps)
next
  case (Cons x xss)
  then have "x \<noteq> []" and "length x = k" by auto
  then have "chunks k (concat (x # xss)) = x # chunks k (concat xss)"
    by (subst chunks.simps) (use Cons.prems in simp)
  with Cons show ?case by simp
qed

lemma chunks_of_multiple:
  "0 < k \<Longrightarrow> length xs = m * k \<Longrightarrow>
   concat (chunks k xs) = xs \<and> (\<forall>c \<in> set (chunks k xs). length c = k) \<and> length (chunks k xs) = m"
proof (induction m arbitrary: xs)
  case 0
  then show ?case by (simp add: chunks.simps)
next
  case (Suc m)
  then have ne: "xs \<noteq> []" by auto
  have d: "length (drop k xs) = m * k" using Suc.prems by simp
  have t: "length (take k xs) = k" using Suc.prems by simp
  have c: "chunks k xs = take k xs # chunks k (drop k xs)"
    by (subst chunks.simps) (use ne Suc.prems in simp)
  from Suc.IH [OF Suc.prems(1) d] t show ?case by (simp add: c)
qed

lemma indexOf_nth: "distinct wl \<Longrightarrow> i < length wl \<Longrightarrow> indexOf wl (wl ! i) = Some i"
proof (induction wl arbitrary: i)
  case Nil
  then show ?case by simp
next
  case (Cons w wl)
  show ?case
  proof (cases i)
    case 0
    then show ?thesis by simp
  next
    case (Suc j)
    with Cons.prems have "wl ! j \<in> set wl" and "w \<notin> set wl" by auto
    then have "w \<noteq> wl ! j" by auto
    with Cons Suc show ?thesis by simp
  qed
qed

lemma those_map_Some: "those (map (\<lambda>x. Some (f x)) xs) = Some (map f xs)"
  by (induction xs) auto

lemma length_bytesToBinary: "length (bytesToBinary bytes) = 8 * length bytes"
  by (induction bytes) (simp_all add: bytesToBinary_def)

lemma bytes_of_bits:
  "map (\<lambda>c. word_of_nat (binaryToNat c)) (chunks 8 (bytesToBinary bytes)) = (bytes :: byte list)"
proof -
  have "chunks 8 (bytesToBinary bytes) = map (\<lambda>b. natToBinary 8 (unat b)) bytes"
    unfolding bytesToBinary_def by (rule chunks_concat) auto
  then show ?thesis by (simp add: o_def byte_of_bits map_idI)
qed

lemma decode_indices:
  assumes "length wordlist = 2048" and "distinct wordlist"
    and "\<forall>c \<in> set chs. length c = 11"
  shows "those (map (indexOf wordlist) (map (\<lambda>c. wordlist ! binaryToNat c) chs))
           = Some (map binaryToNat chs)"
proof -
  have "indexOf wordlist (wordlist ! binaryToNat c) = Some (binaryToNat c)" if "c \<in> set chs" for c
  proof -
    have "binaryToNat c < 2 ^ 11" using binaryToNat_less [of c] assms(3) that by simp
    then have "binaryToNat c < length wordlist" using assms(1) by simp
    then show ?thesis using assms(2) by (rule indexOf_nth [rotated])
  qed
  then have "\<forall>c \<in> set chs. indexOf wordlist (wordlist ! binaryToNat c) = Some (binaryToNat c)"
    by blast
  then show ?thesis by (induction chs) simp_all
qed

lemma bits_of_indices:
  assumes "\<forall>c \<in> set chs. length c = 11"
  shows "concat (map (natToBinary 11) (map binaryToNat chs)) = concat chs"
proof -
  have "natToBinary 11 (binaryToNat c) = c" if "c \<in> set chs" for c
    using natToBinary_binaryToNat [of c] assms that by simp
  then have "map (natToBinary 11) (map binaryToNat chs) = chs"
    by (simp add: map_idI)
  then show ?thesis by simp
qed

text \<open>
  C9. For every entropy of 128, 160, 192, 224 or 256 bits, \<open>deriveMnemonic\<close> returns a
  word sequence and \<open>mnemonicToEntropy\<close> maps that sequence back to exactly the original
  bytes, for every word list of 2048 distinct words and every hash with a 32-byte result.
\<close>

theorem mnemonic_roundtrip:
  assumes wl: "length wordlist = 2048" "distinct wordlist"
    and h: "length (hash entropy) = 32"
    and len: "length entropy * 8 \<in> {128, 160, 192, 224, 256}"
  shows "\<exists>words. deriveMnemonic hash wordlist entropy = Inr words
               \<and> mnemonicToEntropy hash wordlist words = Inr entropy"
proof -
  obtain q where q: "length entropy = 4 * q" and qr: "4 \<le> q" "q \<le> 8"
  proof -
    from len have "length entropy \<in> {16, 20, 24, 28, 32}" by auto
    then have "length entropy = 4 * (length entropy div 4) \<and> 4 \<le> length entropy div 4
               \<and> length entropy div 4 \<le> 8" by auto
    then show ?thesis using that by blast
  qed
  define ebits where "ebits = bytesToBinary entropy"
  define cs where "cs = deriveChecksumBits hash entropy"
  define bits where "bits = ebits @ cs"
  define chs where "chs = chunks 11 bits"
  define words where "words = map (\<lambda>c. wordlist ! binaryToNat c) chs"
  have le: "length ebits = 32 * q" by (simp add: ebits_def length_bytesToBinary q)
  have lc: "length cs = q"
    using qr by (simp add: cs_def deriveChecksumBits_def length_bytesToBinary h q)
  have lb: "length bits = (3 * q) * 11" by (simp add: bits_def le lc)
  have ch: "concat chs = bits" "\<forall>c \<in> set chs. length c = 11" "length chs = 3 * q"
    using chunks_of_multiple [of 11 bits "3 * q"] lb by (simp_all add: chs_def)
  have enc: "deriveMnemonic hash wordlist entropy = Inr words"
    using len by (simp add: deriveMnemonic_def words_def chs_def bits_def ebits_def cs_def Let_def)
  have idx: "those (map (indexOf wordlist) words) = Some (map binaryToNat chs)"
    unfolding words_def using wl ch(2) by (rule decode_indices)
  have rebits: "concat (map (natToBinary 11) (map binaryToNat chs)) = bits"
    using bits_of_indices [OF ch(2)] ch(1) by simp
  then have rebits': "concat (map (natToBinary 11 \<circ> binaryToNat) chs) = bits"
    by simp
  have dv: "(length bits div 33) * 32 = length ebits" by (simp add: lb le)
  have tk: "take (length ebits) bits = ebits" and dr: "drop (length ebits) bits = cs"
    by (simp_all add: bits_def)
  have bts: "map (\<lambda>c. word_of_nat (binaryToNat c)) (chunks 8 ebits) = entropy"
    unfolding ebits_def by (rule bytes_of_bits)
  have lch: "length (chunks 8 ebits) = length entropy"
    using arg_cong [OF bts, of length] by simp
  have l3: "length words mod 3 = 0" by (simp add: words_def ch(3))
  have dec: "mnemonicToEntropy hash wordlist words = Inr entropy"
    using len by (simp add: mnemonicToEntropy_def l3 idx rebits' dv tk dr bts lch Let_def cs_def)
  from enc dec show ?thesis by blast
qed

theorem mnemonic_roundtrip_witness:
  "length toy_wordlist = 2048 \<and> distinct toy_wordlist
   \<and> length (toy_hash (map word_of_nat [0..<16])) = 32
   \<and> length (map word_of_nat [0..<16] :: byte list) * 8 = 128
   \<and> (\<exists>words. deriveMnemonic toy_hash toy_wordlist (map word_of_nat [0..<16]) = Inr words
               \<and> mnemonicToEntropy toy_hash toy_wordlist words = Inr (map word_of_nat [0..<16]))"
proof -
  have l: "length toy_wordlist = 2048" by (simp add: toy_wordlist_def)
  have "inj_on (\<lambda>k. replicate (Suc k) CHR ''a'') (set [0..<2048])"
    by (rule inj_onI) (metis length_replicate nat.inject)
  then have d: "distinct toy_wordlist" by (simp add: toy_wordlist_def distinct_map)
  have h: "length (toy_hash (map word_of_nat [0..<16])) = 32" by (simp add: toy_hash_def)
  have n: "length (map word_of_nat [0..<16] :: byte list) * 8 \<in> {128, 160, 192, 224, 256}"
    by simp
  from mnemonic_roundtrip
         [where wordlist = toy_wordlist and hash = toy_hash
            and entropy = "map word_of_nat [0..<16]", OF l d h n] l d h
  show ?thesis by simp
qed

end
